theory Spec2Isabelle
  imports Complex_Main "HOL-Library.Word" "HOL-Library.Log_Nat" "HOL-Library.Multiset"
begin

section \<open>JavaScript values used by the handlers of server.js\<close>

text \<open>
  A JavaScript string is a sequence of 16-bit code units. ASCII text is written with
  \<open>ustr\<close>; the Japanese messages of the handlers are written as their code units.
\<close>

type_synonym code_unit = "16 word"
type_synonym js_string = "code_unit list"

definition ustr :: "string \<Rightarrow> js_string" where
  "ustr s = map of_char s"

text \<open>
  A Number is a double. The handlers only test numbers for truthiness and for NaN and pass
  them on, so a finite double is kept as the rational it denotes; \<open>Finite 0\<close> is +0.
\<close>

datatype js_number = NaN | PosInfinity | NegInfinity | NegZero | Finite rat

datatype jsval =
    JUndefined
  | JNull
  | JBool bool
  | JNum js_number
  | JStr js_string
  | JArr "jsval list"
  | JObj "(js_string \<times> jsval) list"

type_synonym js_object = "(js_string \<times> jsval) list"

text \<open>ToBoolean: what \<open>!v\<close> and \<open>v || w\<close> test.\<close>

fun truthy :: "jsval \<Rightarrow> bool" where
  "truthy JUndefined = False"
| "truthy JNull = False"
| "truthy (JBool b) = b"
| "truthy (JNum n) = (n \<noteq> NaN \<and> n \<noteq> NegZero \<and> n \<noteq> Finite 0)"
| "truthy (JStr s) = (s \<noteq> [])"
| "truthy (JArr xs) = True"
| "truthy (JObj ps) = True"

text \<open>\<open>v || null\<close>, as in \<open>imageUrl || null\<close> and \<open>userId || null\<close>.\<close>

definition or_null :: "jsval \<Rightarrow> jsval" where
  "or_null v = (if truthy v then v else JNull)"

text \<open>
  Reading a property of a parsed JSON object: an absent key reads as undefined, and of a
  key written twice in the JSON text the last one counts.
\<close>

definition get_prop :: "js_object \<Rightarrow> js_string \<Rightarrow> jsval" where
  "get_prop obj k = (case map_of (rev obj) k of None \<Rightarrow> JUndefined | Some v \<Rightarrow> v)"

text \<open>
  Reading \<open>content\<close>, \<open>imageUrl\<close> or \<open>userId\<close> from \<open>req.body\<close> when it is neither
  undefined nor null: an object gives its property; an array or a primitive value has no
  property of these three names, own or inherited, and reads as undefined.
\<close>

definition body_prop :: "jsval \<Rightarrow> js_string \<Rightarrow> jsval" where
  "body_prop v k = (case v of JObj obj \<Rightarrow> get_prop obj k | _ \<Rightarrow> JUndefined)"

subsection \<open>String.prototype.trim\<close>

text \<open>White space and line terminators of ECMAScript, all of them single code units.\<close>

definition is_js_space :: "code_unit \<Rightarrow> bool" where
  "is_js_space c =
     (c \<in> {0x0009, 0x000A, 0x000B, 0x000C, 0x000D, 0x0020, 0x00A0, 0x1680,
            0x2028, 0x2029, 0x202F, 0x205F, 0x3000, 0xFEFF}
      \<or> (0x2000 \<le> c \<and> c \<le> 0x200A))"

definition js_trim :: "js_string \<Rightarrow> js_string" where
  "js_trim s = rev (dropWhile is_js_space (rev (dropWhile is_js_space s)))"

text \<open>
  Errors are thrown objects; the handlers read only their \<open>code\<close> property and log them.
\<close>

datatype js_error = JsError (err_name: js_string) (err_code: jsval) (err_message: js_string)

definition type_error :: "js_string \<Rightarrow> js_error" where
  "type_error msg = JsError (ustr ''TypeError'') JUndefined msg"

text \<open>
  \<open>content.trim()\<close> on a truthy value: a string is trimmed; on every other value that a
  JSON body can hold (number, boolean, array, object) the property \<open>trim\<close> is not a
  function and the call throws a TypeError. On undefined and null the property read
  itself throws.
\<close>

fun call_trim :: "jsval \<Rightarrow> js_error + js_string" where
  "call_trim (JStr s) = Inr (js_trim s)"
| "call_trim JUndefined = Inl (type_error (ustr ''Cannot read properties of undefined''))"
| "call_trim JNull = Inl (type_error (ustr ''Cannot read properties of null''))"
| "call_trim v = Inl (type_error (ustr ''content.trim is not a function''))"

subsection \<open>parseInt and isNaN\<close>

text \<open>
  The Number value of an integer: exact below \<open>2 ^ 53\<close>, otherwise rounded to 53
  significant bits, ties to even, and infinite from \<open>2 ^ 1024\<close> on.
\<close>

definition double_of_int :: "int \<Rightarrow> js_number" where
  "double_of_int n =
     (let a = \<bar>n\<bar> in
      if a < 2 ^ 53 then Finite (of_int n)
      else
        let e = nat (bitlen a - 53);
            q = a div 2 ^ e;
            r = a mod 2 ^ e;
            q' = (if 2 * r > 2 ^ e \<or> (2 * r = 2 ^ e \<and> odd q) then q + 1 else q);
            v = q' * 2 ^ e
        in if v \<ge> 2 ^ 1024 then (if n < 0 then NegInfinity else PosInfinity)
           else Finite (of_int (if n < 0 then - v else v)))"

definition is_dec_digit :: "code_unit \<Rightarrow> bool" where
  "is_dec_digit c = (0x30 \<le> c \<and> c \<le> 0x39)"

definition is_radix_digit :: "int \<Rightarrow> code_unit \<Rightarrow> bool" where
  "is_radix_digit R c =
     (if R = 16
      then is_dec_digit c \<or> (0x41 \<le> c \<and> c \<le> 0x46) \<or> (0x61 \<le> c \<and> c \<le> 0x66)
      else is_dec_digit c)"

definition digit_val :: "code_unit \<Rightarrow> int" where
  "digit_val c =
     (if is_dec_digit c then uint c - 48
      else if 0x41 \<le> c \<and> c \<le> 0x46 then uint c - 55
      else uint c - 87)"

definition digits_value :: "int \<Rightarrow> js_string \<Rightarrow> int" where
  "digits_value R Z = foldl (\<lambda>acc c. acc * R + digit_val c) 0 Z"

definition has_hex_prefix :: "js_string \<Rightarrow> bool" where
  "has_hex_prefix S = (take 2 S = [0x30, 0x78] \<or> take 2 S = [0x30, 0x58])"

text \<open>
  \<open>parseInt(string)\<close> with no radix, on a string argument: leading white space is
  dropped, a sign is read, a prefix 0x or 0X selects radix 16, and the longest run of
  digits of the radix is the number; no digit at all gives NaN.
\<close>

definition js_parseInt :: "js_string \<Rightarrow> js_number" where
  "js_parseInt inputString =
     (let S0 = dropWhile is_js_space inputString;
          negative = (S0 \<noteq> [] \<and> hd S0 = 0x2D);
          S1 = (if S0 \<noteq> [] \<and> (hd S0 = 0x2B \<or> hd S0 = 0x2D) then tl S0 else S0);
          R = (if has_hex_prefix S1 then 16 else 10);
          S2 = (if has_hex_prefix S1 then drop 2 S1 else S1);
          Z = takeWhile (is_radix_digit R) S2
      in if Z = [] then NaN
         else
           let mathInt = digits_value R Z
           in if mathInt = 0 then (if negative then NegZero else Finite 0)
              else double_of_int (if negative then - mathInt else mathInt))"

definition js_isNaN :: "js_number \<Rightarrow> bool" where
  "js_isNaN n = (n = NaN)"

section \<open>The Post table and the persistence client\<close>

text \<open>
  A row of the Post table. The handler passes \<open>imageUrl || null\<close> and \<open>userId || null\<close>
  through unchanged, so both columns hold the value they were given.
\<close>

record post =
  post_id :: int
  content :: js_string
  imageUrl :: jsval
  userId :: jsval
  createdAt :: int

record create_data =
  data_content :: js_string
  data_imageUrl :: jsval
  data_userId :: jsval

datatype sort_order = Asc | Desc

datatype db_call = FindMany sort_order | Create create_data | Delete js_number

text \<open>
  The store: the rows of the table, in no particular order, and the calls the client has
  received so far (kept so that "no persistence call was made" can be stated).
\<close>

record db =
  rows :: "post list"
  calls :: "db_call list"

text \<open>
  What the outside world decides for one request: whether the persistence call fails for a
  reason of its own (connectivity, a constraint, ...), and the id and the creation time the
  persistence layer assigns to a new row.
\<close>

record env =
  fault :: "js_error option"
  new_id :: int
  now :: int

text \<open>
  Modelled from the spec: the generated client \<open>./generated/prisma\<close> and its schema are
  not among the sources. \<open>findMany\<close> with \<open>orderBy: { createdAt: order }\<close> fetches all posts
  ordered by \<open>createdAt\<close>; a failure of the persistence layer is thrown and leaves the
  rows as they were.
\<close>

definition prisma_post_findMany :: "env \<Rightarrow> sort_order \<Rightarrow> db \<Rightarrow> (js_error + post list) \<times> db" where
  "prisma_post_findMany ev orderBy_createdAt d =
     (let d' = d\<lparr>calls := calls d @ [FindMany orderBy_createdAt]\<rparr> in
      case fault ev of
        Some e \<Rightarrow> (Inl e, d')
      | None \<Rightarrow>
          (Inr (case orderBy_createdAt of
                  Desc \<Rightarrow> sort_key (\<lambda>p. - createdAt p) (rows d)
                | Asc \<Rightarrow> sort_key createdAt (rows d)), d'))"

text \<open>
  Modelled from the spec: \<open>create\<close> of the absent generated client persists a new Post
  with the data it is given; the persistence layer assigns \<open>id\<close> and \<open>createdAt\<close>.
  No field is validated.
\<close>

definition prisma_post_create :: "env \<Rightarrow> create_data \<Rightarrow> db \<Rightarrow> (js_error + post) \<times> db" where
  "prisma_post_create ev data d =
     (let d' = d\<lparr>calls := calls d @ [Create data]\<rparr> in
      case fault ev of
        Some e \<Rightarrow> (Inl e, d')
      | None \<Rightarrow>
          (let p = \<lparr>post_id = new_id ev, content = data_content data,
                    imageUrl = data_imageUrl data, userId = data_userId data,
                    createdAt = now ev\<rparr>
           in (Inr p, d'\<lparr>rows := rows d @ [p]\<rparr>)))"

text \<open>
  Modelled from the spec: "the Post matching the identifier", for the absent generated
  client. Ids are integers; a Number matches the row whose id it equals, and -0 equals 0.
\<close>

definition id_matches :: "js_number \<Rightarrow> post \<Rightarrow> bool" where
  "id_matches n p = (n = Finite (of_int (post_id p)) \<or> (n = NegZero \<and> post_id p = 0))"

text \<open>
  Modelled from the spec: the record-not-found condition of the absent generated client,
  an error that carries the ORM's code; the code itself, P2025, is the one the delete
  handler compares with.
\<close>

definition record_not_found :: js_error where
  "record_not_found =
     JsError (ustr ''PrismaClientKnownRequestError'') (JStr (ustr ''P2025''))
       (ustr ''Record to delete does not exist.'')"

text \<open>
  Modelled from the spec: \<open>delete\<close> of the absent generated client with \<open>where: { id }\<close>
  deletes the Post matching the identifier, and signals record-not-found when the target
  record does not exist.
\<close>

definition prisma_post_delete :: "env \<Rightarrow> js_number \<Rightarrow> db \<Rightarrow> (js_error + unit) \<times> db" where
  "prisma_post_delete ev id_num d =
     (let d' = d\<lparr>calls := calls d @ [Delete id_num]\<rparr> in
      case fault ev of
        Some e \<Rightarrow> (Inl e, d')
      | None \<Rightarrow>
          if list_ex (id_matches id_num) (rows d)
          then (Inr (), d'\<lparr>rows := filter (\<lambda>p. \<not> id_matches id_num p) (rows d)\<rparr>)
          else (Inl record_not_found, d'))"

section \<open>The route handlers\<close>

datatype response_body =
    Posts "post list"
  | OnePost post
  | ErrorMsg js_string
  | Message js_string

record response =
  status :: nat
  body :: response_body

text \<open>What a handler leaves behind: its response, what it wrote with \<open>console.error\<close>,
  and the store.\<close>

record outcome =
  resp :: response
  logged :: "(js_string \<times> js_error) list"
  store :: db

text \<open>The fixed messages, as code units (the source writes them in Japanese).\<close>

definition msg_fetch_failed :: js_string where
  "msg_fetch_failed =
     [0x6295, 0x7A3F, 0x306E, 0x53D6, 0x5F97, 0x306B, 0x5931, 0x6557, 0x3057, 0x307E, 0x3057, 0x305F]"

definition msg_content_empty :: js_string where
  "msg_content_empty =
     [0x6295, 0x7A3F, 0x306E, 0x4E2D, 0x8EAB, 0x304C, 0x7A7A, 0x306A, 0x306E, 0x3067, 0x5165, 0x529B,
      0x3057, 0x3066, 0x304F, 0x3060, 0x3055, 0x3044]"

definition msg_create_failed :: js_string where
  "msg_create_failed =
     [0x6295, 0x7A3F, 0x306E, 0x4F5C, 0x6210, 0x306B, 0x5931, 0x6557, 0x3057, 0x307E, 0x3057, 0x305F]"

definition msg_invalid_id :: js_string where
  "msg_invalid_id = [0x7121, 0x52B9, 0x306A, 0x0049, 0x0044, 0x3067, 0x3059]"

definition msg_deleted :: js_string where
  "msg_deleted = [0x6295, 0x7A3F, 0x3092, 0x524A, 0x9664, 0x3057, 0x307E, 0x3057, 0x305F]"

definition msg_not_found :: js_string where
  "msg_not_found =
     [0x6295, 0x7A3F, 0x304C, 0x898B, 0x3064, 0x304B, 0x308A, 0x307E, 0x305B, 0x3093]"

definition msg_delete_failed :: js_string where
  "msg_delete_failed =
     [0x6295, 0x7A3F, 0x306E, 0x524A, 0x9664, 0x306B, 0x5931, 0x6557, 0x3057, 0x307E, 0x3057, 0x305F]"

subsection \<open>GET /api/posts\<close>

text \<open>The body of the \<open>try\<close>: \<open>Inl\<close> is a thrown error, on its way to the \<open>catch\<close>.\<close>

definition get_api_posts_try :: "env \<Rightarrow> db \<Rightarrow> (js_error + response) \<times> db" where
  "get_api_posts_try ev d =
     (case prisma_post_findMany ev Desc d of
        (Inl e, d') \<Rightarrow> (Inl e, d')
      | (Inr posts, d') \<Rightarrow> (Inr \<lparr>status = 200, body = Posts posts\<rparr>, d'))"

definition get_api_posts :: "env \<Rightarrow> db \<Rightarrow> outcome" where
  "get_api_posts ev d =
     (case get_api_posts_try ev d of
        (Inr r, d') \<Rightarrow> \<lparr>resp = r, logged = [], store = d'\<rparr>
      | (Inl error, d') \<Rightarrow>
          \<lparr>resp = \<lparr>status = 500, body = ErrorMsg msg_fetch_failed\<rparr>,
           logged = [(ustr ''Error fetching posts:'', error)],
           store = d'\<rparr>)"

subsection \<open>POST /api/posts\<close>

text \<open>
  \<open>req.body\<close> is whatever the JSON middleware left there: the parsed value, or undefined
  when no body was parsed. The destructuring \<open>const { content, imageUrl, userId } = req.body\<close>
  stands inside the \<open>try\<close> and throws a TypeError on undefined and on null.

  The source calls \<open>content.trim()\<close> twice, in the test and in the data of the create
  call; the call has no effect and gives the same string both times, so it is bound once.
\<close>

definition post_api_posts_try :: "env \<Rightarrow> jsval \<Rightarrow> db \<Rightarrow> (js_error + response) \<times> db" where
  "post_api_posts_try ev req_body d =
     (if req_body = JUndefined \<or> req_body = JNull
      then (Inl (type_error (ustr ''Cannot destructure property content of req.body'')), d)
      else
        let content' = body_prop req_body (ustr ''content'');
            imageUrl' = body_prop req_body (ustr ''imageUrl'');
            userId' = body_prop req_body (ustr ''userId'')
        in if \<not> truthy content'
           then (Inr \<lparr>status = 400, body = ErrorMsg msg_content_empty\<rparr>, d)
           else
             case call_trim content' of
               Inl e \<Rightarrow> (Inl e, d)
             | Inr trimmed \<Rightarrow>
                 if trimmed = []
                 then (Inr \<lparr>status = 400, body = ErrorMsg msg_content_empty\<rparr>, d)
                 else
                   case prisma_post_create ev
                          \<lparr>data_content = trimmed,
                           data_imageUrl = or_null imageUrl',
                           data_userId = or_null userId'\<rparr> d of
                     (Inl e, d') \<Rightarrow> (Inl e, d')
                   | (Inr p, d') \<Rightarrow> (Inr \<lparr>status = 201, body = OnePost p\<rparr>, d'))"

definition post_api_posts :: "env \<Rightarrow> jsval \<Rightarrow> db \<Rightarrow> outcome" where
  "post_api_posts ev req_body d =
     (case post_api_posts_try ev req_body d of
        (Inr r, d') \<Rightarrow> \<lparr>resp = r, logged = [], store = d'\<rparr>
      | (Inl error, d') \<Rightarrow>
          \<lparr>resp = \<lparr>status = 500, body = ErrorMsg msg_create_failed\<rparr>,
           logged = [(ustr ''Error creating post:'', error)],
           store = d'\<rparr>)"

subsection \<open>DELETE /api/posts/:id\<close>

definition delete_api_posts_id_try :: "env \<Rightarrow> js_string \<Rightarrow> db \<Rightarrow> (js_error + response) \<times> db" where
  "delete_api_posts_id_try ev params_id d =
     (let id_num = js_parseInt params_id
      in if js_isNaN id_num
         then (Inr \<lparr>status = 400, body = ErrorMsg msg_invalid_id\<rparr>, d)
         else
           case prisma_post_delete ev id_num d of
             (Inl e, d') \<Rightarrow> (Inl e, d')
           | (Inr u, d') \<Rightarrow> (Inr \<lparr>status = 200, body = Message msg_deleted\<rparr>, d'))"

definition delete_api_posts_id :: "env \<Rightarrow> js_string \<Rightarrow> db \<Rightarrow> outcome" where
  "delete_api_posts_id ev params_id d =
     (case delete_api_posts_id_try ev params_id d of
        (Inr r, d') \<Rightarrow> \<lparr>resp = r, logged = [], store = d'\<rparr>
      | (Inl error, d') \<Rightarrow>
          \<lparr>resp = (if err_code error = JStr (ustr ''P2025'')
                   then \<lparr>status = 404, body = ErrorMsg msg_not_found\<rparr>
                   else \<lparr>status = 500, body = ErrorMsg msg_delete_failed\<rparr>),
           logged = [(ustr ''Error deleting post:'', error)],
           store = d'\<rparr>)"

subsection \<open>The three operations as one step on the store\<close>

datatype request = ListPosts | CreatePost jsval | DeletePost js_string

fun handle :: "env \<Rightarrow> request \<Rightarrow> db \<Rightarrow> outcome" where
  "handle ev ListPosts d = get_api_posts ev d"
| "handle ev (CreatePost req_body) d = post_api_posts ev req_body d"
| "handle ev (DeletePost params_id) d = delete_api_posts_id ev params_id d"

definition empty_db :: db where
  "empty_db = \<lparr>rows = [], calls = []\<rparr>"

inductive reachable :: "db \<Rightarrow> bool" where
  reachable_empty: "reachable empty_db"
| reachable_step: "reachable d \<Longrightarrow> reachable (store (handle ev req d))"

text \<open>A stored content is acceptable when it is neither empty nor white space only.\<close>

definition content_ok :: "post \<Rightarrow> bool" where
  "content_ok p = (content p \<noteq> [] \<and> \<not> list_all is_js_space (content p))"

definition content_invariant :: "db \<Rightarrow> bool" where
  "content_invariant d = list_all content_ok (rows d)"

section \<open>Facts about the builtins\<close>

lemma digit_not_space: "is_dec_digit c \<Longrightarrow> \<not> is_js_space c"
  by (auto simp: is_dec_digit_def is_js_space_def word_le_nat_alt)

lemma digit_not_sign: "is_dec_digit c \<Longrightarrow> c \<noteq> 0x2D \<and> c \<noteq> 0x2B"
  by (auto simp: is_dec_digit_def)

lemma double_of_int_exact: "\<bar>n\<bar> < 2 ^ 53 \<Longrightarrow> double_of_int n = Finite (of_int n)"
  by (simp add: double_of_int_def)

lemma double_of_int_not_NaN: "double_of_int n \<noteq> NaN"
  by (simp add: double_of_int_def Let_def)

lemma digit_val_nonneg: "is_dec_digit c \<Longrightarrow> 0 \<le> digit_val c"
  by (simp add: digit_val_def is_dec_digit_def word_le_def)

lemma foldl_digits_nonneg:
  "0 \<le> acc \<Longrightarrow> \<forall>c\<in>set Z. is_dec_digit c \<Longrightarrow> 0 \<le> foldl (\<lambda>acc c. acc * 10 + digit_val c) acc Z"
  by (induction Z arbitrary: acc) (auto simp: digit_val_nonneg)

lemma digits_value_nonneg: "0 \<le> digits_value 10 (takeWhile is_dec_digit s)"
  unfolding digits_value_def
  by (rule foldl_digits_nonneg) (auto dest: set_takeWhileD)

lemma parseInt_leading_digits:
  assumes "takeWhile is_dec_digit s \<noteq> []" and "\<not> has_hex_prefix s"
  shows "js_parseInt s = double_of_int (digits_value 10 (takeWhile is_dec_digit s))"
proof -
  from assms(1) obtain c cs where s: "s = c # cs" and c: "is_dec_digit c"
    by (cases s) (auto split: if_splits)
  have sp: "dropWhile is_js_space s = s"
    using s c by (simp add: digit_not_space)
  have rd: "is_radix_digit 10 = is_dec_digit"
    by (auto simp: is_radix_digit_def)
  have z: "double_of_int 0 = Finite 0"
    by (simp add: double_of_int_def)
  show ?thesis
    using assms digit_not_sign [OF c] z
    unfolding js_parseInt_def sp
    by (simp add: s rd Let_def)
qed

lemma js_trim_Nil: "js_trim [] = []"
  by (simp add: js_trim_def)

lemma dropWhile_hd: "dropWhile P xs \<noteq> [] \<Longrightarrow> \<not> P (hd (dropWhile P xs))"
  by (induction xs) auto

lemma js_trim_not_blank:
  assumes "js_trim s \<noteq> []"
  shows "\<not> list_all is_js_space (js_trim s)"
proof -
  let ?ys = "dropWhile is_js_space (rev (dropWhile is_js_space s))"
  from assms have ne: "?ys \<noteq> []" by (simp add: js_trim_def)
  then have "\<not> is_js_space (hd ?ys)" by (rule dropWhile_hd)
  moreover from ne have "hd ?ys \<in> set (js_trim s)" by (simp add: js_trim_def)
  ultimately show ?thesis by (auto simp: list_all_iff)
qed

section \<open>Facts about the persistence client\<close>

lemma prisma_post_findMany_ok:
  "fault ev = None \<Longrightarrow>
   prisma_post_findMany ev Desc d =
     (Inr (sort_key (\<lambda>p. - createdAt p) (rows d)), d\<lparr>calls := calls d @ [FindMany Desc]\<rparr>)"
  by (simp add: prisma_post_findMany_def Let_def)

lemma prisma_post_findMany_fault:
  "fault ev = Some e \<Longrightarrow>
   prisma_post_findMany ev ord d = (Inl e, d\<lparr>calls := calls d @ [FindMany ord]\<rparr>)"
  by (simp add: prisma_post_findMany_def Let_def)

lemma prisma_post_create_ok:
  "fault ev = None \<Longrightarrow>
   prisma_post_create ev data d =
     (Inr \<lparr>post_id = new_id ev, content = data_content data, imageUrl = data_imageUrl data,
           userId = data_userId data, createdAt = now ev\<rparr>,
      d\<lparr>calls := calls d @ [Create data],
        rows := rows d @ [\<lparr>post_id = new_id ev, content = data_content data,
                           imageUrl = data_imageUrl data, userId = data_userId data,
                           createdAt = now ev\<rparr>]\<rparr>)"
  by (simp add: prisma_post_create_def Let_def)

lemma prisma_post_create_fault:
  "fault ev = Some e \<Longrightarrow>
   prisma_post_create ev data d = (Inl e, d\<lparr>calls := calls d @ [Create data]\<rparr>)"
  by (simp add: prisma_post_create_def Let_def)

lemma prisma_post_delete_fault:
  "fault ev = Some e \<Longrightarrow>
   prisma_post_delete ev n d = (Inl e, d\<lparr>calls := calls d @ [Delete n]\<rparr>)"
  by (simp add: prisma_post_delete_def Let_def)

lemma prisma_post_delete_found:
  "fault ev = None \<Longrightarrow> list_ex (id_matches n) (rows d) \<Longrightarrow>
   prisma_post_delete ev n d =
     (Inr (), d\<lparr>calls := calls d @ [Delete n],
               rows := filter (\<lambda>p. \<not> id_matches n p) (rows d)\<rparr>)"
  by (simp add: prisma_post_delete_def Let_def)

lemma prisma_post_delete_missing:
  "fault ev = None \<Longrightarrow> \<not> list_ex (id_matches n) (rows d) \<Longrightarrow>
   prisma_post_delete ev n d = (Inl record_not_found, d\<lparr>calls := calls d @ [Delete n]\<rparr>)"
  by (simp add: prisma_post_delete_def Let_def)

lemma id_matches_same_id: "id_matches n p \<Longrightarrow> id_matches n q \<longleftrightarrow> post_id q = post_id p"
  by (auto simp: id_matches_def)

lemma id_matches_not_NaN: "id_matches n p \<Longrightarrow> n \<noteq> NaN"
  by (auto simp: id_matches_def)

lemma filter_same_id:
  "distinct (map post_id xs) \<Longrightarrow> p \<in> set xs \<Longrightarrow> filter (\<lambda>q. post_id q = post_id p) xs = [p]"
proof (induction xs)
  case Nil
  then show ?case by simp
next
  case (Cons x xs)
  show ?case
  proof (cases "x = p")
    case True
    with Cons.prems(1) have "\<forall>q\<in>set xs. post_id q \<noteq> post_id p"
      by (auto simp: image_iff)
    then have "filter (\<lambda>q. post_id q = post_id p) xs = []" by (simp add: filter_empty_conv)
    with True show ?thesis by simp
  next
    case False
    with Cons.prems have "p \<in> set xs" and "post_id x \<noteq> post_id p" by auto
    with Cons show ?thesis by simp
  qed
qed

lemma mset_without_id:
  assumes "distinct (map post_id xs)" and "p \<in> set xs"
  shows "mset xs = add_mset p (mset (filter (\<lambda>q. post_id q \<noteq> post_id p) xs))"
proof -
  have "mset xs = mset (filter (\<lambda>q. post_id q = post_id p) xs)
                  + mset (filter (\<lambda>q. post_id q \<noteq> post_id p) xs)"
    by (induction xs) auto
  then show ?thesis by (simp add: filter_same_id [OF assms])
qed

lemma sort_key_Nil_iff: "(sort_key f xs = []) = (xs = [])"
  by (metis length_0_conv length_sort)

lemma newest_first_sort_key:
  "sorted_wrt (\<lambda>p q. createdAt q \<le> createdAt p) (sort_key (\<lambda>p. - createdAt p) ps)"
proof -
  have "sorted (map (\<lambda>p. - createdAt p) (sort_key (\<lambda>p. - createdAt p) ps))"
    by (rule sorted_sort_key)
  then show ?thesis by (simp add: sorted_map)
qed

section \<open>GET /api/posts\<close>

lemma get_api_posts_ok:
  "fault ev = None \<Longrightarrow>
   get_api_posts ev d =
     \<lparr>resp = \<lparr>status = 200, body = Posts (sort_key (\<lambda>p. - createdAt p) (rows d))\<rparr>,
      logged = [], store = d\<lparr>calls := calls d @ [FindMany Desc]\<rparr>\<rparr>"
  by (simp add: get_api_posts_def get_api_posts_try_def prisma_post_findMany_ok)

lemma get_api_posts_rows: "rows (store (get_api_posts ev d)) = rows d"
  by (cases "fault ev")
     (simp_all add: get_api_posts_def get_api_posts_try_def prisma_post_findMany_def Let_def)

text \<open>
  Claim C3. Whatever the store holds and in whatever order its rows lie, the list operation,
  when the persistence call completes, answers 200 with all posts (each exactly once)
  ordered by \<open>createdAt\<close> descending; the sequence is empty exactly when there are no posts.
\<close>

theorem list_returns_all_newest_first:
  assumes "fault ev = None"
  shows "\<exists>ps. resp (get_api_posts ev d) = \<lparr>status = 200, body = Posts ps\<rparr>
           \<and> mset ps = mset (rows d)
           \<and> sorted_wrt (\<lambda>p q. createdAt q \<le> createdAt p) ps
           \<and> (ps = []) = (rows d = [])
           \<and> rows (store (get_api_posts ev d)) = rows d"
  using assms by (simp add: get_api_posts_ok newest_first_sort_key sort_key_Nil_iff)

theorem list_returns_all_newest_first_witness:
  "fault \<lparr>fault = None, new_id = 3, now = 30\<rparr> = None
   \<and> resp (get_api_posts \<lparr>fault = None, new_id = 3, now = 30\<rparr>
        \<lparr>rows = [\<lparr>post_id = 1, content = ustr ''old'', imageUrl = JNull, userId = JNull, createdAt = 10\<rparr>,
                  \<lparr>post_id = 2, content = ustr ''new'', imageUrl = JNull, userId = JNull, createdAt = 20\<rparr>],
         calls = []\<rparr>)
       = \<lparr>status = 200,
          body = Posts [\<lparr>post_id = 2, content = ustr ''new'', imageUrl = JNull, userId = JNull, createdAt = 20\<rparr>,
                        \<lparr>post_id = 1, content = ustr ''old'', imageUrl = JNull, userId = JNull, createdAt = 10\<rparr>]\<rparr>"
proof -
  have f: "fault \<lparr>fault = None, new_id = 3, now = 30\<rparr> = None" by simp
  from list_returns_all_newest_first [OF f]
  show ?thesis by (simp add: get_api_posts_ok)
qed

section \<open>POST /api/posts\<close>

lemma body_prop_present:
  "body_prop req_body k \<noteq> JUndefined \<Longrightarrow> req_body \<noteq> JUndefined \<and> req_body \<noteq> JNull"
  by (auto simp: body_prop_def)

lemma post_api_posts_no_body:
  "req_body = JUndefined \<or> req_body = JNull \<Longrightarrow>
   post_api_posts ev req_body d =
     \<lparr>resp = \<lparr>status = 500, body = ErrorMsg msg_create_failed\<rparr>,
      logged = [(ustr ''Error creating post:'',
                 type_error (ustr ''Cannot destructure property content of req.body''))],
      store = d\<rparr>"
  by (auto simp: post_api_posts_def post_api_posts_try_def)

lemma post_api_posts_valid:
  assumes "body_prop req_body (ustr ''content'') = JStr s" and "js_trim s \<noteq> []"
  shows "post_api_posts_try ev req_body d =
           (case prisma_post_create ev
                   \<lparr>data_content = js_trim s,
                    data_imageUrl = or_null (body_prop req_body (ustr ''imageUrl'')),
                    data_userId = or_null (body_prop req_body (ustr ''userId''))\<rparr> d of
              (Inl e, d') \<Rightarrow> (Inl e, d')
            | (Inr p, d') \<Rightarrow> (Inr \<lparr>status = 201, body = OnePost p\<rparr>, d'))"
proof -
  have "s \<noteq> []" using assms(2) js_trim_Nil by auto
  moreover have "req_body \<noteq> JUndefined \<and> req_body \<noteq> JNull"
    by (rule body_prop_present [of req_body "ustr ''content''"]) (simp add: assms(1))
  ultimately show ?thesis using assms by (simp add: post_api_posts_try_def)
qed

lemma post_api_posts_rows:
  "rows (store (post_api_posts ev req_body d)) = rows d
   \<or> (\<exists>p. rows (store (post_api_posts ev req_body d)) = rows d @ [p] \<and> content_ok p)"
proof (cases "req_body = JUndefined \<or> req_body = JNull")
  case True
  then show ?thesis by (simp add: post_api_posts_no_body)
next
  case present: False
  show ?thesis
  proof (cases "body_prop req_body (ustr ''content'')")
    case (JStr s)
    show ?thesis
    proof (cases "js_trim s = []")
      case True
      with JStr present show ?thesis by (simp add: post_api_posts_def post_api_posts_try_def)
    next
      case False
      with JStr show ?thesis
        by (cases "fault ev")
           (simp_all add: post_api_posts_def post_api_posts_valid prisma_post_create_ok
              prisma_post_create_fault content_ok_def js_trim_not_blank)
    qed
  qed (use present in \<open>simp_all add: post_api_posts_def post_api_posts_try_def\<close>)
qed

text \<open>
  Claim C1. When \<open>content\<close> is a string that is not empty after trimming, and the
  persistence call completes, the create operation persists one new Post whose content is
  the trimmed input, whose \<open>imageUrl\<close> and \<open>userId\<close> are null whenever the supplied value
  is falsy, and answers 201 with that Post, which carries the id and the creation time
  the persistence layer assigned.
\<close>

theorem create_persists_trimmed_post:
  fixes req_body :: jsval and ev :: env and d :: db and s :: js_string
  defines "image_in \<equiv> body_prop req_body (ustr ''imageUrl'')"
    and "user_in \<equiv> body_prop req_body (ustr ''userId'')"
  defines "p \<equiv> \<lparr>post_id = new_id ev, content = js_trim s,
                 imageUrl = (if truthy image_in then image_in else JNull),
                 userId = (if truthy user_in then user_in else JNull),
                 createdAt = now ev\<rparr>"
  assumes content: "body_prop req_body (ustr ''content'') = JStr s"
    and nonblank: "js_trim s \<noteq> []"
    and no_fault: "fault ev = None"
  shows "resp (post_api_posts ev req_body d) = \<lparr>status = 201, body = OnePost p\<rparr>
       \<and> rows (store (post_api_posts ev req_body d)) = rows d @ [p]
       \<and> logged (post_api_posts ev req_body d) = []
       \<and> (\<not> truthy image_in \<longrightarrow> imageUrl p = JNull)
       \<and> (\<not> truthy user_in \<longrightarrow> userId p = JNull)"
  using no_fault
  by (simp add: post_api_posts_def post_api_posts_valid [OF content nonblank]
        prisma_post_create_ok or_null_def image_in_def user_in_def p_def)

theorem create_persists_trimmed_post_witness:
  "body_prop (JObj [(ustr ''content'', JStr (ustr '' hello '')), (ustr ''imageUrl'', JStr [])])
       (ustr ''content'')
     = JStr (ustr '' hello '')
   \<and> js_trim (ustr '' hello '') \<noteq> []
   \<and> fault \<lparr>fault = None, new_id = 1, now = 1000\<rparr> = None
   \<and> resp (post_api_posts \<lparr>fault = None, new_id = 1, now = 1000\<rparr>
            (JObj [(ustr ''content'', JStr (ustr '' hello '')), (ustr ''imageUrl'', JStr [])]) empty_db)
       = \<lparr>status = 201,
          body = OnePost \<lparr>post_id = 1, content = ustr ''hello'', imageUrl = JNull, userId = JNull,
                          createdAt = 1000\<rparr>\<rparr>"
proof -
  let ?b = "JObj [(ustr ''content'', JStr (ustr '' hello '')), (ustr ''imageUrl'', JStr [])]"
  let ?ev = "\<lparr>fault = None, new_id = 1, now = 1000\<rparr>"
  have c: "body_prop ?b (ustr ''content'') = JStr (ustr '' hello '')"
    by (simp add: body_prop_def get_prop_def ustr_def)
  have t: "js_trim (ustr '' hello '') = ustr ''hello''"
    by (simp add: js_trim_def ustr_def is_js_space_def)
  have n: "js_trim (ustr '' hello '') \<noteq> []"
    unfolding t by (simp add: ustr_def)
  have f: "fault ?ev = None" by simp
  have i: "body_prop ?b (ustr ''imageUrl'') = JStr []"
    by (simp add: body_prop_def get_prop_def ustr_def)
  have u: "body_prop ?b (ustr ''userId'') = JUndefined"
    by (simp add: body_prop_def get_prop_def ustr_def)
  from create_persists_trimmed_post [OF c n f, of empty_db]
  show ?thesis using c n f by (simp add: i u t)
qed




text \<open>
  Claim C9. When \<open>content\<close> is truthy but not a string, the call of \<open>trim\<close> throws a
  TypeError, which the \<open>catch\<close> logs and answers with 500; no persistence call is made
  and the store is as it was.
\<close>

theorem create_non_string_content_is_500:
  assumes "truthy (body_prop req_body (ustr ''content''))"
    and "\<forall>s. body_prop req_body (ustr ''content'') \<noteq> JStr s"
  shows "\<exists>e. post_api_posts ev req_body d =
           \<lparr>resp = \<lparr>status = 500, body = ErrorMsg msg_create_failed\<rparr>,
            logged = [(ustr ''Error creating post:'', e)], store = d\<rparr>
           \<and> err_name e = ustr ''TypeError''"
proof -
  from assms(1) have "body_prop req_body (ustr ''content'') \<noteq> JUndefined" by auto
  then have "req_body \<noteq> JUndefined \<and> req_body \<noteq> JNull" by (rule body_prop_present)
  with assms show ?thesis
    by (cases "body_prop req_body (ustr ''content'')")
       (auto simp: post_api_posts_def post_api_posts_try_def type_error_def)
qed

theorem create_non_string_content_is_500_witness:
  "body_prop (JObj [(ustr ''content'', JNum (Finite 42))]) (ustr ''content'') = JNum (Finite 42)
   \<and> truthy (JNum (Finite 42))
   \<and> resp (post_api_posts \<lparr>fault = None, new_id = 1, now = 0\<rparr>
             (JObj [(ustr ''content'', JNum (Finite 42))]) empty_db)
       = \<lparr>status = 500, body = ErrorMsg msg_create_failed\<rparr>
   \<and> store (post_api_posts \<lparr>fault = None, new_id = 1, now = 0\<rparr>
              (JObj [(ustr ''content'', JNum (Finite 42))]) empty_db)
       = empty_db"
proof -
  have c: "body_prop (JObj [(ustr ''content'', JNum (Finite 42))]) (ustr ''content'') = JNum (Finite 42)"
    by (simp add: body_prop_def get_prop_def)
  have t: "truthy (body_prop (JObj [(ustr ''content'', JNum (Finite 42))]) (ustr ''content''))"
    by (simp add: c)
  have n: "\<forall>s. body_prop (JObj [(ustr ''content'', JNum (Finite 42))]) (ustr ''content'') \<noteq> JStr s"
    by (simp add: c)
  from create_non_string_content_is_500 [OF t n, of "\<lparr>fault = None, new_id = 1, now = 0\<rparr>" empty_db]
  show ?thesis using c by auto
qed

section \<open>DELETE /api/posts/:id\<close>

lemma delete_api_posts_id_call:
  "js_parseInt params_id \<noteq> NaN \<Longrightarrow>
   delete_api_posts_id_try ev params_id d =
     (case prisma_post_delete ev (js_parseInt params_id) d of
        (Inl e, d') \<Rightarrow> (Inl e, d')
      | (Inr u, d') \<Rightarrow> (Inr \<lparr>status = 200, body = Message msg_deleted\<rparr>, d'))"
  by (simp add: delete_api_posts_id_try_def js_isNaN_def)

lemma delete_api_posts_id_attempt:
  assumes "js_parseInt params_id \<noteq> NaN"
  shows "calls (store (delete_api_posts_id ev params_id d)) = calls d @ [Delete (js_parseInt params_id)]
       \<and> status (resp (delete_api_posts_id ev params_id d)) \<in> {200, 404, 500}"
proof (cases "fault ev")
  case None
  then show ?thesis
    by (cases "list_ex (id_matches (js_parseInt params_id)) (rows d)")
       (simp_all add: delete_api_posts_id_def delete_api_posts_id_call [OF assms]
          prisma_post_delete_found prisma_post_delete_missing)
next
  case (Some e)
  then show ?thesis
    by (simp add: delete_api_posts_id_def delete_api_posts_id_call [OF assms]
          prisma_post_delete_fault)
qed

lemma delete_api_posts_id_rows:
  "set (rows (store (delete_api_posts_id ev params_id d))) \<subseteq> set (rows d)"
proof (cases "js_parseInt params_id = NaN")
  case True
  then show ?thesis
    by (simp add: delete_api_posts_id_def delete_api_posts_id_try_def js_isNaN_def)
next
  case False
  show ?thesis
  proof (cases "fault ev")
    case None
    then show ?thesis
      by (cases "list_ex (id_matches (js_parseInt params_id)) (rows d)")
         (simp_all add: delete_api_posts_id_def delete_api_posts_id_call [OF False]
            prisma_post_delete_found prisma_post_delete_missing)
  next
    case (Some e)
    then show ?thesis
      by (simp add: delete_api_posts_id_def delete_api_posts_id_call [OF False]
            prisma_post_delete_fault)
  qed
qed

text \<open>
  Claim C5. When the path identifier does not parse to a number (\<open>parseInt\<close> gives NaN),
  the delete operation answers 400, makes no persistence call and leaves the store as it
  was; and 400 is answered in no other case.
\<close>

theorem delete_rejects_unparsable_id:
  "(js_parseInt params_id = NaN \<longrightarrow>
      delete_api_posts_id ev params_id d =
        \<lparr>resp = \<lparr>status = 400, body = ErrorMsg msg_invalid_id\<rparr>, logged = [], store = d\<rparr>)
   \<and> (status (resp (delete_api_posts_id ev params_id d)) = 400) = (js_parseInt params_id = NaN)"
proof (cases "js_parseInt params_id = NaN")
  case True
  then show ?thesis
    by (simp add: delete_api_posts_id_def delete_api_posts_id_try_def js_isNaN_def)
next
  case False
  with delete_api_posts_id_attempt [OF False, of ev d] show ?thesis by auto
qed

theorem delete_rejects_unparsable_id_witness:
  "js_parseInt (ustr ''abc'') = NaN
   \<and> delete_api_posts_id \<lparr>fault = None, new_id = 1, now = 0\<rparr> (ustr ''abc'') empty_db
       = \<lparr>resp = \<lparr>status = 400, body = ErrorMsg msg_invalid_id\<rparr>, logged = [], store = empty_db\<rparr>"
proof -
  have n: "js_parseInt (ustr ''abc'') = NaN"
    by (simp add: js_parseInt_def ustr_def is_js_space_def has_hex_prefix_def is_radix_digit_def
          is_dec_digit_def)
  from delete_rejects_unparsable_id
         [where params_id = "ustr ''abc''" and ev = "\<lparr>fault = None, new_id = 1, now = 0\<rparr>"
            and d = empty_db]
  show ?thesis using n by simp
qed

text \<open>
  Claim C4. When the identifier parses to a number that matches no record, and nothing
  else fails, the persistence layer signals its record-not-found error, whose code is
  P2025; the delete operation answers 404 with its fixed message and the rows are as they
  were. The answer is 404 exactly when the persistence call threw an error with that code.
\<close>

theorem delete_missing_record_is_404:
  "(js_parseInt params_id \<noteq> NaN \<and> \<not> list_ex (id_matches (js_parseInt params_id)) (rows d)
      \<and> fault ev = None \<longrightarrow>
        fst (prisma_post_delete ev (js_parseInt params_id) d) = Inl record_not_found
      \<and> err_code record_not_found = JStr (ustr ''P2025'')
      \<and> resp (delete_api_posts_id ev params_id d) = \<lparr>status = 404, body = ErrorMsg msg_not_found\<rparr>
      \<and> rows (store (delete_api_posts_id ev params_id d)) = rows d)
   \<and> (status (resp (delete_api_posts_id ev params_id d)) = 404 \<longleftrightarrow>
        js_parseInt params_id \<noteq> NaN
        \<and> (\<exists>e. fst (prisma_post_delete ev (js_parseInt params_id) d) = Inl e
                \<and> err_code e = JStr (ustr ''P2025'')))"
proof (intro conjI impI)
  assume h: "js_parseInt params_id \<noteq> NaN \<and> \<not> list_ex (id_matches (js_parseInt params_id)) (rows d)
      \<and> fault ev = None"
  then have del: "prisma_post_delete ev (js_parseInt params_id) d =
      (Inl record_not_found, d\<lparr>calls := calls d @ [Delete (js_parseInt params_id)]\<rparr>)"
    by (simp add: prisma_post_delete_missing)
  show "fst (prisma_post_delete ev (js_parseInt params_id) d) = Inl record_not_found"
    by (simp add: del)
  show "err_code record_not_found = JStr (ustr ''P2025'')"
    by (simp add: record_not_found_def)
  show "resp (delete_api_posts_id ev params_id d) = \<lparr>status = 404, body = ErrorMsg msg_not_found\<rparr>"
    using h by (simp add: delete_api_posts_id_def delete_api_posts_id_call del record_not_found_def)
  show "rows (store (delete_api_posts_id ev params_id d)) = rows d"
    using h by (simp add: delete_api_posts_id_def delete_api_posts_id_call del)
next
  show "status (resp (delete_api_posts_id ev params_id d)) = 404 \<longleftrightarrow>
        js_parseInt params_id \<noteq> NaN
        \<and> (\<exists>e. fst (prisma_post_delete ev (js_parseInt params_id) d) = Inl e
                \<and> err_code e = JStr (ustr ''P2025''))"
  proof (cases "js_parseInt params_id = NaN")
    case True
    then show ?thesis
      by (simp add: delete_api_posts_id_def delete_api_posts_id_try_def js_isNaN_def)
  next
    case False
    then show ?thesis
      by (cases "prisma_post_delete ev (js_parseInt params_id) d";
          cases "fst (prisma_post_delete ev (js_parseInt params_id) d)")
         (auto simp: delete_api_posts_id_def delete_api_posts_id_call)
  qed
qed

theorem delete_missing_record_is_404_witness:
  "js_parseInt (ustr ''7'') = Finite 7
   \<and> resp (delete_api_posts_id \<lparr>fault = None, new_id = 2, now = 20\<rparr> (ustr ''7'')
        \<lparr>rows = [\<lparr>post_id = 1, content = ustr ''a'', imageUrl = JNull, userId = JNull, createdAt = 10\<rparr>],
         calls = []\<rparr>)
       = \<lparr>status = 404, body = ErrorMsg msg_not_found\<rparr>
   \<and> rows (store (delete_api_posts_id \<lparr>fault = None, new_id = 2, now = 20\<rparr> (ustr ''7'')
        \<lparr>rows = [\<lparr>post_id = 1, content = ustr ''a'', imageUrl = JNull, userId = JNull, createdAt = 10\<rparr>],
         calls = []\<rparr>))
       = [\<lparr>post_id = 1, content = ustr ''a'', imageUrl = JNull, userId = JNull, createdAt = 10\<rparr>]"
proof -
  have n: "js_parseInt (ustr ''7'') = Finite 7"
    by (simp add: js_parseInt_def ustr_def is_js_space_def has_hex_prefix_def is_radix_digit_def
          is_dec_digit_def digits_value_def digit_val_def double_of_int_def)
  from delete_missing_record_is_404
         [where params_id = "ustr ''7''" and ev = "\<lparr>fault = None, new_id = 2, now = 20\<rparr>"
            and d = "\<lparr>rows = [\<lparr>post_id = 1, content = ustr ''a'', imageUrl = JNull, userId = JNull,
                                  createdAt = 10\<rparr>], calls = []\<rparr>"]
  show ?thesis by (simp add: n id_matches_def)
qed

text \<open>
  Claim C6. When the identifier parses to the id of a stored post, and the persistence
  call completes, the delete operation answers 200 with its fixed confirmation and the
  store loses the rows with that id and no other: a later listing is the earlier listing
  without it, and where ids are unique exactly that one post is gone.
\<close>

theorem delete_existing_removes_exactly_it:
  fixes ev ev' :: env and d :: db and params_id :: js_string
  defines "out \<equiv> delete_api_posts_id ev params_id d"
  assumes existing: "p \<in> set (rows d)"
    and parsed: "id_matches (js_parseInt params_id) p"
    and no_fault: "fault ev = None"
  shows "resp out = \<lparr>status = 200, body = Message msg_deleted\<rparr>
       \<and> rows (store out) = filter (\<lambda>q. post_id q \<noteq> post_id p) (rows d)
       \<and> (fault ev' = None \<longrightarrow>
            (\<exists>ps. resp (get_api_posts ev' d) = \<lparr>status = 200, body = Posts ps\<rparr>
               \<and> resp (get_api_posts ev' (store out)) =
                   \<lparr>status = 200, body = Posts (filter (\<lambda>q. post_id q \<noteq> post_id p) ps)\<rparr>))
       \<and> (distinct (map post_id (rows d)) \<longrightarrow> mset (rows d) = add_mset p (mset (rows (store out))))"
proof -
  have ex: "list_ex (id_matches (js_parseInt params_id)) (rows d)"
    using existing parsed by (auto simp: list_ex_iff)
  have flt: "filter (\<lambda>q. \<not> id_matches (js_parseInt params_id) q) (rows d)
             = filter (\<lambda>q. post_id q \<noteq> post_id p) (rows d)"
    by (simp add: id_matches_same_id [OF parsed])
  have out: "out = \<lparr>resp = \<lparr>status = 200, body = Message msg_deleted\<rparr>, logged = [],
                    store = d\<lparr>calls := calls d @ [Delete (js_parseInt params_id)],
                             rows := filter (\<lambda>q. post_id q \<noteq> post_id p) (rows d)\<rparr>\<rparr>"
    unfolding out_def
    by (simp add: delete_api_posts_id_def delete_api_posts_id_call id_matches_not_NaN [OF parsed]
          prisma_post_delete_found [OF no_fault ex] flt)
  have rows_out: "rows (store out) = filter (\<lambda>q. post_id q \<noteq> post_id p) (rows d)"
    by (simp add: out)
  have listing: "fault ev' = None \<longrightarrow>
            (\<exists>ps. resp (get_api_posts ev' d) = \<lparr>status = 200, body = Posts ps\<rparr>
               \<and> resp (get_api_posts ev' (store out)) =
                   \<lparr>status = 200, body = Posts (filter (\<lambda>q. post_id q \<noteq> post_id p) ps)\<rparr>)"
    by (simp add: out get_api_posts_ok filter_sort)
  have one: "distinct (map post_id (rows d)) \<longrightarrow> mset (rows d) = add_mset p (mset (rows (store out)))"
    unfolding rows_out using existing by (blast intro: mset_without_id)
  from out rows_out listing one show ?thesis by simp
qed

theorem delete_existing_removes_exactly_it_witness:
  "js_parseInt (ustr ''1'') = Finite 1
   \<and> resp (delete_api_posts_id \<lparr>fault = None, new_id = 3, now = 30\<rparr> (ustr ''1'')
        \<lparr>rows = [\<lparr>post_id = 1, content = ustr ''a'', imageUrl = JNull, userId = JNull, createdAt = 10\<rparr>,
                  \<lparr>post_id = 2, content = ustr ''b'', imageUrl = JNull, userId = JNull, createdAt = 20\<rparr>],
         calls = []\<rparr>)
       = \<lparr>status = 200, body = Message msg_deleted\<rparr>
   \<and> rows (store (delete_api_posts_id \<lparr>fault = None, new_id = 3, now = 30\<rparr> (ustr ''1'')
        \<lparr>rows = [\<lparr>post_id = 1, content = ustr ''a'', imageUrl = JNull, userId = JNull, createdAt = 10\<rparr>,
                  \<lparr>post_id = 2, content = ustr ''b'', imageUrl = JNull, userId = JNull, createdAt = 20\<rparr>],
         calls = []\<rparr>))
       = [\<lparr>post_id = 2, content = ustr ''b'', imageUrl = JNull, userId = JNull, createdAt = 20\<rparr>]
   \<and> body (resp (get_api_posts \<lparr>fault = None, new_id = 3, now = 30\<rparr>
        (store (delete_api_posts_id \<lparr>fault = None, new_id = 3, now = 30\<rparr> (ustr ''1'')
          \<lparr>rows = [\<lparr>post_id = 1, content = ustr ''a'', imageUrl = JNull, userId = JNull, createdAt = 10\<rparr>,
                    \<lparr>post_id = 2, content = ustr ''b'', imageUrl = JNull, userId = JNull, createdAt = 20\<rparr>],
           calls = []\<rparr>))))
       = Posts [\<lparr>post_id = 2, content = ustr ''b'', imageUrl = JNull, userId = JNull, createdAt = 20\<rparr>]"
proof -
  let ?p1 = "\<lparr>post_id = 1, content = ustr ''a'', imageUrl = JNull, userId = JNull, createdAt = 10\<rparr>"
  let ?p2 = "\<lparr>post_id = 2, content = ustr ''b'', imageUrl = JNull, userId = JNull, createdAt = 20\<rparr>"
  let ?d = "\<lparr>rows = [?p1, ?p2], calls = []\<rparr>"
  let ?ev = "\<lparr>fault = None, new_id = 3, now = 30\<rparr>"
  have n: "js_parseInt (ustr ''1'') = Finite 1"
    by (simp add: js_parseInt_def ustr_def is_js_space_def has_hex_prefix_def is_radix_digit_def
          is_dec_digit_def digits_value_def digit_val_def double_of_int_def)
  have e: "?p1 \<in> set (rows ?d)" by simp
  have m: "id_matches (js_parseInt (ustr ''1'')) ?p1" by (simp add: n id_matches_def)
  have f: "fault ?ev = None" by simp
  from delete_existing_removes_exactly_it [OF e m f, of ?ev]
  show ?thesis by (auto simp: n get_api_posts_ok)
qed

text \<open>
  Claim C10, as amended. When the path identifier begins with decimal digits and does not
  begin with the prefix 0x or 0X, \<open>parseInt\<close> gives the Number value of the leading
  decimal integer (the integer itself below \<open>2 ^ 53\<close>), the 400 branch is not taken, and
  the delete is attempted against that number.
\<close>

theorem delete_parses_leading_decimal_digits:
  fixes params_id :: js_string
  defines "n \<equiv> digits_value 10 (takeWhile is_dec_digit params_id)"
  assumes digits: "takeWhile is_dec_digit params_id \<noteq> []"
    and no_hex: "\<not> has_hex_prefix params_id"
  shows "js_parseInt params_id = double_of_int n
       \<and> (n < 2 ^ 53 \<longrightarrow> js_parseInt params_id = Finite (of_int n))
       \<and> status (resp (delete_api_posts_id ev params_id d)) \<noteq> 400
       \<and> calls (store (delete_api_posts_id ev params_id d)) = calls d @ [Delete (double_of_int n)]"
proof -
  have p: "js_parseInt params_id = double_of_int n"
    unfolding n_def by (rule parseInt_leading_digits [OF digits no_hex])
  have "0 \<le> n" unfolding n_def by (rule digits_value_nonneg)
  then have exact: "n < 2 ^ 53 \<longrightarrow> double_of_int n = Finite (of_int n)"
    by (simp add: double_of_int_exact)
  have "js_parseInt params_id \<noteq> NaN"
    by (simp add: p double_of_int_not_NaN)
  from delete_api_posts_id_attempt [OF this, of ev d] p exact show ?thesis by auto
qed

theorem delete_parses_leading_decimal_digits_witness:
  "takeWhile is_dec_digit (ustr ''123abc'') \<noteq> []
   \<and> \<not> has_hex_prefix (ustr ''123abc'')
   \<and> js_parseInt (ustr ''123abc'') = Finite 123
   \<and> status (resp (delete_api_posts_id \<lparr>fault = None, new_id = 1, now = 0\<rparr> (ustr ''123abc'') empty_db)) \<noteq> 400
   \<and> calls (store (delete_api_posts_id \<lparr>fault = None, new_id = 1, now = 0\<rparr> (ustr ''123abc'') empty_db))
       = [Delete (Finite 123)]"
proof -
  have tw: "takeWhile is_dec_digit (ustr ''123abc'') = ustr ''123''"
    by (simp add: ustr_def is_dec_digit_def)
  have d: "takeWhile is_dec_digit (ustr ''123abc'') \<noteq> []"
    unfolding tw by (simp add: ustr_def)
  have h: "\<not> has_hex_prefix (ustr ''123abc'')"
    by (simp add: has_hex_prefix_def ustr_def)
  have v: "digits_value 10 (ustr ''123'') = 123"
    by (simp add: digits_value_def digit_val_def ustr_def is_dec_digit_def)
  from delete_parses_leading_decimal_digits [OF d h, of "\<lparr>fault = None, new_id = 1, now = 0\<rparr>" empty_db]
  show ?thesis using d h by (simp add: tw v empty_db_def double_of_int_def)
qed

text \<open>
  Claim C10, as stated, fails. The identifier 0xz begins with the digit 0 followed by
  non-digit characters, yet it parses to NaN and the delete operation answers 400 with no
  persistence call; 0x1f parses to 31, not to its leading integer 0; and the leading integer
  \<open>2 ^ 53 + 1\<close> parses to \<open>2 ^ 53\<close>.
\<close>

theorem delete_leading_integer_counterexample:
  "takeWhile is_dec_digit (ustr ''0xz'') = ustr ''0''
   \<and> dropWhile is_dec_digit (ustr ''0xz'') = ustr ''xz''
   \<and> js_parseInt (ustr ''0xz'') = NaN
   \<and> delete_api_posts_id \<lparr>fault = None, new_id = 1, now = 0\<rparr> (ustr ''0xz'') empty_db
       = \<lparr>resp = \<lparr>status = 400, body = ErrorMsg msg_invalid_id\<rparr>, logged = [], store = empty_db\<rparr>
   \<and> js_parseInt (ustr ''0x1f'') = Finite 31
   \<and> js_parseInt (ustr ''9007199254740993'') = Finite 9007199254740992"
proof -
  have a: "takeWhile is_dec_digit (ustr ''0xz'') = ustr ''0''"
    and b: "dropWhile is_dec_digit (ustr ''0xz'') = ustr ''xz''"
    by (simp_all add: ustr_def is_dec_digit_def)
  have c: "js_parseInt (ustr ''0xz'') = NaN"
    by (simp add: js_parseInt_def ustr_def is_js_space_def has_hex_prefix_def is_radix_digit_def
          is_dec_digit_def)
  have d: "delete_api_posts_id \<lparr>fault = None, new_id = 1, now = 0\<rparr> (ustr ''0xz'') empty_db
       = \<lparr>resp = \<lparr>status = 400, body = ErrorMsg msg_invalid_id\<rparr>, logged = [], store = empty_db\<rparr>"
    by (simp add: delete_api_posts_id_def delete_api_posts_id_try_def js_isNaN_def c)
  have e: "js_parseInt (ustr ''0x1f'') = Finite 31"
    by code_simp
  have f: "js_parseInt (ustr ''9007199254740993'') = Finite 9007199254740992"
    by code_simp
  from a b c d e f show ?thesis by simp
qed

section \<open>Failures of the persistence layer\<close>

text \<open>
  Claim C7. A failure of the persistence call is caught in the handler that made it: the
  list and the create operation answer 500 with their fixed message, and so does the delete
  operation unless the error carries the record-not-found code. The error itself goes to
  the log and the response is the same whatever the error is. Every handler is a total
  function to an outcome, so nothing is thrown past it.
\<close>

theorem persistence_failure_is_500:
  assumes "fault ev = Some e"
  shows "resp (get_api_posts ev d) = \<lparr>status = 500, body = ErrorMsg msg_fetch_failed\<rparr>
       \<and> logged (get_api_posts ev d) = [(ustr ''Error fetching posts:'', e)]
       \<and> (body_prop req_body (ustr ''content'') = JStr s \<and> js_trim s \<noteq> [] \<longrightarrow>
            resp (post_api_posts ev req_body d) = \<lparr>status = 500, body = ErrorMsg msg_create_failed\<rparr>
          \<and> logged (post_api_posts ev req_body d) = [(ustr ''Error creating post:'', e)])
       \<and> (js_parseInt params_id \<noteq> NaN \<and> err_code e \<noteq> JStr (ustr ''P2025'') \<longrightarrow>
            resp (delete_api_posts_id ev params_id d) = \<lparr>status = 500, body = ErrorMsg msg_delete_failed\<rparr>
          \<and> logged (delete_api_posts_id ev params_id d) = [(ustr ''Error deleting post:'', e)])"
proof (intro conjI impI)
  show "resp (get_api_posts ev d) = \<lparr>status = 500, body = ErrorMsg msg_fetch_failed\<rparr>"
    and "logged (get_api_posts ev d) = [(ustr ''Error fetching posts:'', e)]"
    using assms
    by (simp_all add: get_api_posts_def get_api_posts_try_def prisma_post_findMany_fault)
next
  assume c: "body_prop req_body (ustr ''content'') = JStr s \<and> js_trim s \<noteq> []"
  then have v: "post_api_posts_try ev req_body d =
      (Inl e, d\<lparr>calls := calls d @ [Create \<lparr>data_content = js_trim s,
                    data_imageUrl = or_null (body_prop req_body (ustr ''imageUrl'')),
                    data_userId = or_null (body_prop req_body (ustr ''userId''))\<rparr>]\<rparr>)"
    using assms by (simp add: post_api_posts_valid prisma_post_create_fault)
  show "resp (post_api_posts ev req_body d) = \<lparr>status = 500, body = ErrorMsg msg_create_failed\<rparr>"
    and "logged (post_api_posts ev req_body d) = [(ustr ''Error creating post:'', e)]"
    by (simp_all add: post_api_posts_def v)
next
  assume h: "js_parseInt params_id \<noteq> NaN \<and> err_code e \<noteq> JStr (ustr ''P2025'')"
  then have v: "delete_api_posts_id_try ev params_id d =
      (Inl e, d\<lparr>calls := calls d @ [Delete (js_parseInt params_id)]\<rparr>)"
    using assms by (simp add: delete_api_posts_id_call prisma_post_delete_fault)
  show "resp (delete_api_posts_id ev params_id d) = \<lparr>status = 500, body = ErrorMsg msg_delete_failed\<rparr>"
    and "logged (delete_api_posts_id ev params_id d) = [(ustr ''Error deleting post:'', e)]"
    using h by (simp_all add: delete_api_posts_id_def v)
qed

theorem persistence_failure_is_500_witness:
  "fault \<lparr>fault = Some (JsError (ustr ''Error'') (JStr (ustr ''P1001'')) (ustr ''unreachable'')),
          new_id = 1, now = 0\<rparr>
     = Some (JsError (ustr ''Error'') (JStr (ustr ''P1001'')) (ustr ''unreachable''))
   \<and> js_trim (ustr ''hi'') \<noteq> []
   \<and> js_parseInt (ustr ''1'') \<noteq> NaN
   \<and> JStr (ustr ''P1001'') \<noteq> JStr (ustr ''P2025'')
   \<and> resp (get_api_posts
        \<lparr>fault = Some (JsError (ustr ''Error'') (JStr (ustr ''P1001'')) (ustr ''unreachable'')),
         new_id = 1, now = 0\<rparr> empty_db)
       = \<lparr>status = 500, body = ErrorMsg msg_fetch_failed\<rparr>
   \<and> resp (post_api_posts
        \<lparr>fault = Some (JsError (ustr ''Error'') (JStr (ustr ''P1001'')) (ustr ''unreachable'')),
         new_id = 1, now = 0\<rparr> (JObj [(ustr ''content'', JStr (ustr ''hi''))]) empty_db)
       = \<lparr>status = 500, body = ErrorMsg msg_create_failed\<rparr>
   \<and> resp (delete_api_posts_id
        \<lparr>fault = Some (JsError (ustr ''Error'') (JStr (ustr ''P1001'')) (ustr ''unreachable'')),
         new_id = 1, now = 0\<rparr> (ustr ''1'') empty_db)
       = \<lparr>status = 500, body = ErrorMsg msg_delete_failed\<rparr>"
proof -
  let ?e = "JsError (ustr ''Error'') (JStr (ustr ''P1001'')) (ustr ''unreachable'')"
  let ?ev = "\<lparr>fault = Some ?e, new_id = 1, now = 0\<rparr>"
  have f: "fault ?ev = Some ?e" by simp
  have c: "body_prop (JObj [(ustr ''content'', JStr (ustr ''hi''))]) (ustr ''content'') = JStr (ustr ''hi'')"
    by (simp add: body_prop_def get_prop_def)
  have t: "js_trim (ustr ''hi'') \<noteq> []"
    by (simp add: js_trim_def ustr_def is_js_space_def)
  have n: "js_parseInt (ustr ''1'') \<noteq> NaN"
    by (simp add: js_parseInt_def ustr_def is_js_space_def has_hex_prefix_def is_radix_digit_def
          is_dec_digit_def digits_value_def digit_val_def double_of_int_def)
  have k: "JStr (ustr ''P1001'') \<noteq> JStr (ustr ''P2025'')"
    by (simp add: ustr_def)
  from persistence_failure_is_500
         [OF f, where req_body = "JObj [(ustr ''content'', JStr (ustr ''hi''))]" and s = "ustr ''hi''"
            and params_id = "ustr ''1''" and d = empty_db]
  show ?thesis using c t n k by simp
qed

section \<open>The content invariant\<close>

lemma handle_preserves_content:
  assumes "content_invariant d"
  shows "content_invariant (store (handle ev req d))"
proof (cases req)
  case ListPosts
  with assms show ?thesis by (simp add: content_invariant_def get_api_posts_rows)
next
  case (CreatePost req_body)
  with assms post_api_posts_rows [of ev req_body d] show ?thesis
    by (auto simp: content_invariant_def)
next
  case (DeletePost params_id)
  with assms delete_api_posts_id_rows [of ev params_id d] show ?thesis
    by (auto simp: content_invariant_def list_all_iff)
qed

text \<open>
  Claim C8. In every store reachable from the empty store through list, create and delete
  requests, the content of every stored Post is a non-empty string that is not white space
  only; and each of the three operations preserves this from any store that has it.
\<close>

theorem stored_content_never_blank:
  "(reachable d \<longrightarrow> content_invariant d)
   \<and> (content_invariant d \<longrightarrow> content_invariant (store (handle ev req d)))"
proof (intro conjI impI)
  assume "reachable d"
  then show "content_invariant d"
  proof (induction rule: reachable.induct)
    case reachable_empty
    show ?case by (simp add: content_invariant_def empty_db_def)
  next
    case (reachable_step d ev req)
    then show ?case by (simp add: handle_preserves_content)
  qed
next
  assume "content_invariant d"
  then show "content_invariant (store (handle ev req d))"
    by (rule handle_preserves_content)
qed

theorem stored_content_never_blank_witness:
  "reachable (store (handle \<lparr>fault = None, new_id = 1, now = 10\<rparr>
                (CreatePost (JObj [(ustr ''content'', JStr (ustr '' hi ''))])) empty_db))
   \<and> rows (store (handle \<lparr>fault = None, new_id = 1, now = 10\<rparr>
                (CreatePost (JObj [(ustr ''content'', JStr (ustr '' hi ''))])) empty_db))
       = [\<lparr>post_id = 1, content = ustr ''hi'', imageUrl = JNull, userId = JNull, createdAt = 10\<rparr>]
   \<and> content_invariant (store (handle \<lparr>fault = None, new_id = 1, now = 10\<rparr>
                (CreatePost (JObj [(ustr ''content'', JStr (ustr '' hi ''))])) empty_db))
   \<and> content_invariant (store (handle \<lparr>fault = None, new_id = 2, now = 20\<rparr> ListPosts
        (store (handle \<lparr>fault = None, new_id = 1, now = 10\<rparr>
                (CreatePost (JObj [(ustr ''content'', JStr (ustr '' hi ''))])) empty_db))))"
proof -
  let ?ev = "\<lparr>fault = None, new_id = 1, now = 10\<rparr>"
  let ?b = "JObj [(ustr ''content'', JStr (ustr '' hi ''))]"
  let ?d = "store (handle ?ev (CreatePost ?b) empty_db)"
  have r: "reachable ?d"
    by (rule reachable_step [OF reachable_empty])
  have c: "body_prop ?b (ustr ''content'') = JStr (ustr '' hi '')"
    by (simp add: body_prop_def get_prop_def)
  have t: "js_trim (ustr '' hi '') = ustr ''hi''"
    by (simp add: js_trim_def ustr_def is_js_space_def)
  have ne: "js_trim (ustr '' hi '') \<noteq> []"
    unfolding t by (simp add: ustr_def)
  have i: "body_prop ?b (ustr ''imageUrl'') = JUndefined"
    and u: "body_prop ?b (ustr ''userId'') = JUndefined"
    by (simp_all add: body_prop_def get_prop_def ustr_def)
  have rows: "rows ?d = [\<lparr>post_id = 1, content = ustr ''hi'', imageUrl = JNull, userId = JNull,
                          createdAt = 10\<rparr>]"
    by (simp add: post_api_posts_def post_api_posts_valid [OF c ne] prisma_post_create_ok
          or_null_def i u t empty_db_def)
  from stored_content_never_blank
         [where d = ?d and ev = "\<lparr>fault = None, new_id = 2, now = 20\<rparr>" and req = ListPosts]
  show ?thesis using r rows by simp
qed

end
